theory Spec2Isabelle
  imports Main "HOL-Library.Char_ord" "HOL-Library.List_Lexorder" "HOL-Library.Product_Lexorder"
begin

section \<open>MealMapper: the data-access layer of the recipe server\<close>

text \<open>
  The development embeds \<^verbatim>\<open>src/server/appService.js\<close> (the connection wrapper
  \<^verbatim>\<open>withOracleDB\<close> and the query executors) and \<^verbatim>\<open>src/server/appController.js\<close>
  (the Express route handlers). An \<^verbatim>\<open>async\<close> function is a function from the
  world before the call to its settled promise (a value, or the thrown error) and the
  world after. The Oracle driver is outside the program: what \<^verbatim>\<open>getConnection\<close>,
  \<^verbatim>\<open>execute\<close>, \<^verbatim>\<open>commit\<close> and \<^verbatim>\<open>close\<close> do on one call is a parameter.
\<close>

subsection \<open>Errors, rows and tables\<close>

datatype js_error = OraError string | TypeError string

datatype sqlval = SqlNum int | SqlStr string

type_synonym row = "sqlval list"

text \<open>
  One record per table named in the SQL text, one field per column the statements use.
  The schema is not part of the server sources; columns are taken as NOT NULL, numbers as
  integers, and CookingTime by its text.
\<close>

record RecipeCreated2 =
  r_RecipeID :: int
  r_RecipeName :: string
  r_Cuisine :: string
  r_CookingTime :: string
  r_UserID :: int

record RecipeCreated1 =
  rc_Cuisine :: string
  rc_RecipeLevel :: string

record Users2 =
  us_UserID :: int
  us_UserName :: string

record RecipesLiked =
  rl_RecipeID :: int
  rl_Liked :: int

record User2 =
  u_UserID :: int
  u_UserName :: string
  u_Points :: int

record User1 =
  p_Points :: int
  p_UserLevel :: string

record UserPantries =
  up_UserID :: int
  up_PantryID :: int

record SavedPantry =
  sp_PantryID :: int
  sp_Category :: string

record Locations =
  l_Street :: string
  l_City :: string
  l_Province :: string
  l_LocationType :: string

record database =
  tbl_RecipeCreated2 :: "RecipeCreated2 list"
  tbl_RecipeCreated1 :: "RecipeCreated1 list"
  tbl_Users2 :: "Users2 list"
  tbl_RecipesLiked :: "RecipesLiked list"
  tbl_User2 :: "User2 list"
  tbl_User1 :: "User1 list"
  tbl_UserPantries :: "UserPantries list"
  tbl_SavedPantry :: "SavedPantry list"
  tbl_Locations :: "Locations list"
  recipe_seq :: int

subsection \<open>The driver and the world\<close>

text \<open>
  A connection handed out by the pool: for the call in progress, the error (if any) with
  which its \<^verbatim>\<open>execute\<close>, \<^verbatim>\<open>commit\<close> and \<^verbatim>\<open>close\<close> reject.
  \<^verbatim>\<open>oracledb.getConnection()\<close> itself settles to an error or to such a connection.
\<close>

record connection =
  execute_err :: "js_error option"
  commit_err :: "js_error option"
  close_err :: "js_error option"

type_synonym getConnection = "js_error + connection"

text \<open>
  The world: the committed contents of the store, the number of connections checked out
  of the pool, and the lines written with \<^verbatim>\<open>console.error\<close>, oldest first.
\<close>

record world =
  db :: database
  busy :: nat
  console :: "js_error list"

type_synonym 'a promise = "(js_error + 'a) \<times> world"

definition console_error :: "js_error \<Rightarrow> world \<Rightarrow> world" where
  "console_error err w = w\<lparr>console := console w @ [err]\<rparr>"

text \<open>\<^verbatim>\<open>await connection.close()\<close> inside the inner try/catch of the finally block.\<close>

definition close_connection :: "connection \<Rightarrow> world \<Rightarrow> world" where
  "close_connection connection w =
     (case close_err connection of
        None \<Rightarrow> w\<lparr>busy := busy w - 1\<rparr>
      | Some err \<Rightarrow> console_error err w)"

text \<open>
  \<^verbatim>\<open>withOracleDB(action)\<close>, lines 48-65. The action works on the store through the
  connection and settles to a value or an error. When \<^verbatim>\<open>getConnection\<close> rejects,
  the catch block logs and rethrows and the finally block finds \<^verbatim>\<open>connection\<close>
  undefined. Otherwise the action runs; if it rejects, the catch block logs and rethrows;
  on both paths the finally block then closes the connection.
\<close>

definition withOracleDB ::
  "getConnection \<Rightarrow> (connection \<Rightarrow> database \<Rightarrow> (js_error + 'a) \<times> database) \<Rightarrow> world \<Rightarrow> 'a promise"
where
  "withOracleDB getConn action w =
     (case getConn of
        Inl err \<Rightarrow> (Inl err, console_error err w)
      | Inr connection \<Rightarrow>
          (let w1 = w\<lparr>busy := busy w + 1\<rparr>;
               (result, d) = action connection (db w1);
               w2 = w1\<lparr>db := d\<rparr>;
               w3 = (case result of Inl err \<Rightarrow> console_error err w2 | Inr v \<Rightarrow> w2)
           in (result, close_connection connection w3)))"

text \<open>\<^verbatim>\<open>promise.catch(handler)\<close>: a rejection is replaced by what the handler returns.\<close>

definition catch :: "'a promise \<Rightarrow> (js_error \<Rightarrow> world \<Rightarrow> 'a \<times> world) \<Rightarrow> 'a promise" where
  "catch p handler =
     (case p of
        (Inl err, w) \<Rightarrow> (case handler err w of (v, w') \<Rightarrow> (Inr v, w'))
      | (Inr v, w) \<Rightarrow> (Inr v, w))"

text \<open>
  \<^verbatim>\<open>await connection.execute(sql)\<close> for a SELECT: the rows, or the statement's error.
\<close>

definition execute_query ::
  "connection \<Rightarrow> (database \<Rightarrow> row list) \<Rightarrow> database \<Rightarrow> (js_error + row list) \<times> database"
where
  "execute_query connection query d =
     (case execute_err connection of
        Some err \<Rightarrow> (Inl err, d)
      | None \<Rightarrow> (Inr (query d), d))"

text \<open>
  \<^verbatim>\<open>execute\<close> of an INSERT, UPDATE or DELETE followed by \<^verbatim>\<open>await connection.commit()\<close>.
  The statement yields a value and the changed store; the change reaches the committed store
  only when the commit succeeds. What survives a failed statement or commit (a sequence
  number that was drawn is not given back) is the statement's third component.
\<close>

definition execute_commit ::
  "connection \<Rightarrow> (database \<Rightarrow> 'a \<times> database \<times> database) \<Rightarrow> database \<Rightarrow> (js_error + 'a) \<times> database"
where
  "execute_commit connection stmt d =
     (case execute_err connection of
        Some err \<Rightarrow> (Inl err, d)
      | None \<Rightarrow>
          (case stmt d of (v, changed, rolled_back) \<Rightarrow>
             (case commit_err connection of
                Some err \<Rightarrow> (Inl err, rolled_back)
              | None \<Rightarrow> (Inr v, changed))))"

subsection \<open>The statements\<close>

text \<open>
  Each SELECT is the list of its result rows: joins and WHERE as a list comprehension over
  the tables in FROM/JOIN order, ORDER BY as a stable sort on the key. Where the statement
  has no ORDER BY, or the key has ties, SQL leaves the order open and the comprehension
  fixes one.
\<close>

definition sql_fetchAllLocations :: "database \<Rightarrow> row list" where
  "sql_fetchAllLocations d =
     map (\<lambda>l. [SqlStr (l_Street l), SqlStr (l_City l), SqlStr (l_Province l), SqlStr (l_LocationType l)])
       (sort_key (\<lambda>l. (l_City l, l_Street l)) (tbl_Locations d))"

definition sql_fetchAllRecipes :: "database \<Rightarrow> row list" where
  "sql_fetchAllRecipes d =
     map (\<lambda>(r, rc, u). [SqlNum (r_RecipeID r), SqlStr (r_RecipeName r), SqlStr (r_Cuisine r),
                         SqlStr (rc_RecipeLevel rc), SqlStr (r_CookingTime r), SqlStr (us_UserName u)])
       (sort_key (\<lambda>(r, rc, u). r_RecipeID r)
          [(r, rc, u).
             r \<leftarrow> tbl_RecipeCreated2 d,
             rc \<leftarrow> tbl_RecipeCreated1 d, r_Cuisine r = rc_Cuisine rc,
             u \<leftarrow> tbl_Users2 d, r_UserID r = us_UserID u])"

definition sql_fetchLikedRecipes :: "database \<Rightarrow> row list" where
  "sql_fetchLikedRecipes d =
     map (\<lambda>(rl, rc, u). [SqlNum (rl_RecipeID rl), SqlStr (r_RecipeName rc), SqlStr (r_Cuisine rc),
                          SqlStr (r_CookingTime rc), SqlStr (us_UserName u)])
       (sort_key (\<lambda>(rl, rc, u). rl_RecipeID rl)
          [(rl, rc, u).
             rl \<leftarrow> tbl_RecipesLiked d,
             rc \<leftarrow> tbl_RecipeCreated2 d, rl_RecipeID rl = r_RecipeID rc,
             u \<leftarrow> tbl_Users2 d, r_UserID rc = us_UserID u,
             rl_Liked rl = 1])"

definition sql_fetchRecipeByID :: "int \<Rightarrow> database \<Rightarrow> row list" where
  "sql_fetchRecipeByID RecipeID d =
     [[SqlNum (r_RecipeID r), SqlStr (r_RecipeName r), SqlStr (r_Cuisine r),
       SqlStr (r_CookingTime r), SqlStr (us_UserName u)].
        r \<leftarrow> tbl_RecipeCreated2 d,
        u \<leftarrow> tbl_Users2 d, r_UserID r = us_UserID u,
        r_RecipeID r = RecipeID]"

definition sql_fetchPantries :: "int \<Rightarrow> database \<Rightarrow> row list" where
  "sql_fetchPantries UserID d =
     [[SqlNum (up_UserID u), SqlNum (up_PantryID u), SqlStr (sp_Category p)].
        u \<leftarrow> tbl_UserPantries d,
        p \<leftarrow> tbl_SavedPantry d, up_PantryID u = sp_PantryID p,
        up_UserID u = UserID]"

text \<open>
  \<^verbatim>\<open>SELECT MAX(Points) FROM User1 WHERE u.Points >= Points\<close>: MAX of no rows is NULL,
  and \<^verbatim>\<open>p.Points = NULL\<close> selects nothing.
\<close>

definition sql_max :: "int list \<Rightarrow> int option" where
  "sql_max xs = (case xs of [] \<Rightarrow> None | x # rest \<Rightarrow> Some (fold max rest x))"

definition max_Points_upto :: "database \<Rightarrow> User2 \<Rightarrow> int option" where
  "max_Points_upto d u = sql_max [p_Points q. q \<leftarrow> tbl_User1 d, u_Points u \<ge> p_Points q]"

definition user_row :: "User2 \<Rightarrow> User1 \<Rightarrow> row" where
  "user_row u p = [SqlNum (u_UserID u), SqlStr (u_UserName u), SqlNum (u_Points u), SqlStr (p_UserLevel p)]"

text \<open>
  The statement of \<^verbatim>\<open>fetchUser\<close>, lines 173-182. \<^verbatim>\<open>${UserID}\<close> is pasted into the
  SQL text; the embedding covers the calls where the pasted text is an integer literal.
\<close>

definition sql_fetchUser :: "int \<Rightarrow> database \<Rightarrow> row list" where
  "sql_fetchUser UserID d =
     [user_row u p.
        u \<leftarrow> tbl_User2 d,
        p \<leftarrow> tbl_User1 d, u_Points u \<ge> p_Points p,
        u_UserID u = UserID \<and> Some (p_Points p) = max_Points_upto d u]"

definition sql_fetchAllUsers :: "database \<Rightarrow> row list" where
  "sql_fetchAllUsers d =
     map (\<lambda>(u, p). user_row u p)
       (sort_key (\<lambda>(u, p). u_UserID u)
          [(u, p).
             u \<leftarrow> tbl_User2 d,
             p \<leftarrow> tbl_User1 d, u_Points u \<ge> p_Points p,
             Some (p_Points p) = max_Points_upto d u])"

text \<open>The request body of POST /recipe, and with the path's id that of PUT /recipe/:id.\<close>

record recipe =
  recipe_RecipeName :: string
  recipe_Cuisine :: string
  recipe_CookingTime :: string
  recipe_UserID :: int

record recipe_with_id = recipe +
  recipe_RecipeID :: int

text \<open>
  INSERT ... VALUES (recipe_seq.NEXTVAL, ...) RETURNING RecipeID: the sequence steps by one,
  the new row carries the drawn number, which is the statement's out-bind. The value is
  typed as number-or-null (\<open>None\<close> is JavaScript's null), the type of what
  \<^verbatim>\<open>createRecipe\<close> resolves to.
\<close>

definition sql_createRecipe :: "'x recipe_scheme \<Rightarrow> database \<Rightarrow> int option \<times> database \<times> database" where
  "sql_createRecipe recipe d =
     (let recipeID = recipe_seq d + 1;
          drawn = d\<lparr>recipe_seq := recipeID\<rparr>;
          new = \<lparr>r_RecipeID = recipeID, r_RecipeName = recipe_RecipeName recipe, r_Cuisine = recipe_Cuisine recipe,
                 r_CookingTime = recipe_CookingTime recipe, r_UserID = recipe_UserID recipe\<rparr>
      in (Some recipeID, drawn\<lparr>tbl_RecipeCreated2 := tbl_RecipeCreated2 d @ [new]\<rparr>, drawn))"

definition sql_deleteRecipe :: "int \<Rightarrow> database \<Rightarrow> nat \<times> database \<times> database" where
  "sql_deleteRecipe recipeID d =
     (length (filter (\<lambda>r. r_RecipeID r = recipeID) (tbl_RecipeCreated2 d)),
      d\<lparr>tbl_RecipeCreated2 := filter (\<lambda>r. r_RecipeID r \<noteq> recipeID) (tbl_RecipeCreated2 d)\<rparr>,
      d)"

definition sql_updateRecipe :: "recipe_with_id \<Rightarrow> database \<Rightarrow> nat \<times> database \<times> database" where
  "sql_updateRecipe recipe d =
     (length (filter (\<lambda>r. r_RecipeID r = recipe_RecipeID recipe) (tbl_RecipeCreated2 d)),
      d\<lparr>tbl_RecipeCreated2 :=
          map (\<lambda>r. if r_RecipeID r = recipe_RecipeID recipe
                    then r\<lparr>r_RecipeName := recipe_RecipeName recipe, r_Cuisine := recipe_Cuisine recipe,
                           r_CookingTime := recipe_CookingTime recipe, r_UserID := recipe_UserID recipe\<rparr>
                    else r)
            (tbl_RecipeCreated2 d)\<rparr>,
      d)"

subsection \<open>The executors of appService.js\<close>

definition testOracleConnection :: "getConnection \<Rightarrow> world \<Rightarrow> bool promise" where
  "testOracleConnection getConn w =
     catch (withOracleDB getConn (\<lambda>connection d. (Inr True, d)) w) (\<lambda>err w'. (False, w'))"

definition fetchAllLocations :: "getConnection \<Rightarrow> world \<Rightarrow> row list promise" where
  "fetchAllLocations getConn w =
     catch (withOracleDB getConn (\<lambda>connection. execute_query connection sql_fetchAllLocations) w)
       (\<lambda>err w'. ([], console_error err w'))"

definition fetchAllRecipes :: "getConnection \<Rightarrow> world \<Rightarrow> row list promise" where
  "fetchAllRecipes getConn w =
     catch (withOracleDB getConn (\<lambda>connection. execute_query connection sql_fetchAllRecipes) w)
       (\<lambda>err w'. ([], console_error err w'))"

definition fetchLikedRecipes :: "getConnection \<Rightarrow> world \<Rightarrow> row list promise" where
  "fetchLikedRecipes getConn w =
     catch (withOracleDB getConn (\<lambda>connection. execute_query connection sql_fetchLikedRecipes) w)
       (\<lambda>err w'. ([], console_error err w'))"

definition createRecipe :: "getConnection \<Rightarrow> 'x recipe_scheme \<Rightarrow> world \<Rightarrow> int option promise" where
  "createRecipe getConn recipe w =
     catch (withOracleDB getConn (\<lambda>connection. execute_commit connection (sql_createRecipe recipe)) w)
       (\<lambda>err w'. (None, console_error err w'))"

definition deleteRecipe :: "getConnection \<Rightarrow> int \<Rightarrow> world \<Rightarrow> nat promise" where
  "deleteRecipe getConn recipeID w =
     catch (withOracleDB getConn (\<lambda>connection. execute_commit connection (sql_deleteRecipe recipeID)) w)
       (\<lambda>err w'. (0, console_error err w'))"

definition fetchUser :: "getConnection \<Rightarrow> int \<Rightarrow> world \<Rightarrow> row list promise" where
  "fetchUser getConn UserID w =
     catch (withOracleDB getConn (\<lambda>connection. execute_query connection (sql_fetchUser UserID)) w)
       (\<lambda>err w'. ([], w'))"

text \<open>The parameter of \<^verbatim>\<open>fetchAllUsers(UserID)\<close> does not occur in its body.\<close>

definition fetchAllUsers :: "getConnection \<Rightarrow> 'arg \<Rightarrow> world \<Rightarrow> row list promise" where
  "fetchAllUsers getConn UserID w =
     catch (withOracleDB getConn (\<lambda>connection. execute_query connection sql_fetchAllUsers) w)
       (\<lambda>err w'. ([], w'))"

definition fetchPantries :: "getConnection \<Rightarrow> int \<Rightarrow> world \<Rightarrow> row list promise" where
  "fetchPantries getConn UserID w =
     catch (withOracleDB getConn (\<lambda>connection. execute_query connection (sql_fetchPantries UserID)) w)
       (\<lambda>err w'. ([], w'))"

definition fetchRecipeByID :: "getConnection \<Rightarrow> int \<Rightarrow> world \<Rightarrow> row list promise" where
  "fetchRecipeByID getConn RecipeID w =
     catch (withOracleDB getConn (\<lambda>connection. execute_query connection (sql_fetchRecipeByID RecipeID)) w)
       (\<lambda>err w'. ([], console_error err w'))"

definition updateRecipe :: "getConnection \<Rightarrow> recipe_with_id \<Rightarrow> world \<Rightarrow> nat promise" where
  "updateRecipe getConn recipe w =
     catch (withOracleDB getConn (\<lambda>connection. execute_commit connection (sql_updateRecipe recipe)) w)
       (\<lambda>err w'. (0, console_error err w'))"

subsection \<open>The module object\<close>

text \<open>
  \<^verbatim>\<open>module.exports\<close> of appService.js, lines 276-288: the keys of the object that
  appController.js binds to \<^verbatim>\<open>appService\<close>.
\<close>

definition appService_exports :: "string list" where
  "appService_exports =
     [''fetchUser'', ''fetchAllUsers'', ''fetchPantries'', ''testOracleConnection'',
      ''fetchAllRecipes'', ''fetchRecipeByID'', ''createRecipe'', ''updateRecipe'',
      ''deleteRecipe'', ''fetchAllLocations'', ''fetchLikedRecipes'']"

text \<open>
  The property read \<^verbatim>\<open>appService.name\<close>: the function the module binds to that key,
  or undefined (\<open>None\<close>) when the object has no such key. The second argument is the
  function written under that name.
\<close>

definition appService :: "string \<Rightarrow> 'f \<Rightarrow> 'f option" where
  "appService name f = (if name \<in> set appService_exports then Some f else None)"

text \<open>
  The call \<^verbatim>\<open>appService.name(...)\<close>: calling undefined throws a TypeError before
  anything else happens.
\<close>

definition call :: "string \<Rightarrow> 'f option \<Rightarrow> ('f \<Rightarrow> world \<Rightarrow> 'a promise) \<Rightarrow> world \<Rightarrow> 'a promise" where
  "call name property args w =
     (case property of
        None \<Rightarrow> (Inl (TypeError (''appService.'' @ name @ '' is not a function'')), w)
      | Some f \<Rightarrow> args f w)"

subsection \<open>The route handlers of appController.js\<close>

datatype body =
    Data "row list"
  | Error string
  | Message string
  | MessageResponse string int

record response =
  status :: nat
  body :: body

text \<open>
  \<^verbatim>\<open>await p\<close> inside an async handler: a rejection of \<open>p\<close> leaves the handler at
  once, as the handler's own rejection.
\<close>

definition await :: "'a promise \<Rightarrow> ('a \<Rightarrow> world \<Rightarrow> 'b promise) \<Rightarrow> 'b promise" where
  "await p continue =
     (case p of
        (Inl err, w) \<Rightarrow> (Inl err, w)
      | (Inr v, w) \<Rightarrow> continue v w)"

text \<open>\<^verbatim>\<open>res.status(n).json(b)\<close>; \<^verbatim>\<open>res.json(b)\<close> alone answers with status 200.\<close>

definition json :: "nat \<Rightarrow> body \<Rightarrow> world \<Rightarrow> response promise" where
  "json n b w = (Inr \<lparr>status = n, body = b\<rparr>, w)"

text \<open>
  A value of \<^verbatim>\<open>req.query\<close>. Express parses the query string with qs: a key given
  once is a string, a repeated key (\<^verbatim>\<open>?columns=a&columns=b\<close>) an array, a bracketed
  key (\<^verbatim>\<open>?columns[x]=a\<close>) an object; an absent key reads undefined (\<open>None\<close>).
\<close>

datatype query_value =
    QString string
  | QArray "query_value list"
  | QObject "(string \<times> query_value) list"

text \<open>\<^verbatim>\<open>s.split(',')\<close> on a string.\<close>

fun split_commas :: "string \<Rightarrow> string \<Rightarrow> string list" where
  "split_commas acc [] = [acc]"
| "split_commas acc (c # cs) =
     (if c = CHR '','' then acc # split_commas [] cs else split_commas (acc @ [c]) cs)"

text \<open>
  \<^verbatim>\<open>req.query.columns ? req.query.columns.split(',') : null\<close>, lines 55, 219 and 229.
  Undefined and the empty string are falsy. Arrays and objects are truthy and have no
  \<^verbatim>\<open>split\<close>: the call throws a TypeError.
\<close>

definition columns_of :: "query_value option \<Rightarrow> js_error + string list option" where
  "columns_of q =
     (case q of
        None \<Rightarrow> Inr None
      | Some (QString s) \<Rightarrow> if s = [] then Inr None else Inr (Some (split_commas [] s))
      | Some (QArray values) \<Rightarrow> Inl (TypeError ''req.query.columns.split is not a function'')
      | Some (QObject entries) \<Rightarrow> Inl (TypeError ''req.query.columns.split is not a function''))"

text \<open>
  The query of GET /recipes as the handler reads it, lines 55-59. \<^verbatim>\<open>x || null\<close> turns
  an absent or empty parameter into null.
\<close>

record recipes_query =
  q_columns :: "query_value option"
  q_filter :: "query_value option"
  q_id :: "query_value option"
  q_img :: "query_value option"
  q_captionless :: "query_value option"

definition or_null :: "query_value option \<Rightarrow> query_value option" where
  "or_null q =
     (case q of
        None \<Rightarrow> None
      | Some (QString s) \<Rightarrow> if s = [] then None else Some (QString s)
      | Some (QArray values) \<Rightarrow> Some (QArray values)
      | Some (QObject entries) \<Rightarrow> Some (QObject entries))"

type_synonym fetchRecipes_fn =
  "string list option \<Rightarrow> query_value option \<Rightarrow> query_value option \<Rightarrow> query_value option
     \<Rightarrow> query_value option \<Rightarrow> world \<Rightarrow> row list promise"

text \<open>
  GET /recipes, lines 54-66. appService.js has no function \<^verbatim>\<open>fetchRecipes\<close>; the
  handler is given the function \<open>f\<close> one might write under that name and reads the
  property from the module object.
\<close>

definition get_recipes :: "fetchRecipes_fn \<Rightarrow> recipes_query \<Rightarrow> world \<Rightarrow> response promise" where
  "get_recipes f q w =
     (case columns_of (q_columns q) of
        Inl err \<Rightarrow> (Inl err, w)
      | Inr columns \<Rightarrow>
          (let filter' = or_null (q_filter q);
               id' = or_null (q_id q);
               img = q_img q;
               captionless = q_captionless q
           in await (call ''fetchRecipes'' (appService ''fetchRecipes'' f)
                       (\<lambda>fetchRecipes. fetchRecipes columns filter' id' img captionless) w)
                (\<lambda>recipes.
                   if length recipes = 0 then json 404 (Error ''No recipes found'')
                   else json 200 (Data recipes))))"

text \<open>GET /recipe/:id, lines 71-79.\<close>

definition get_recipe :: "getConnection \<Rightarrow> int \<Rightarrow> world \<Rightarrow> response promise" where
  "get_recipe getConn RecipeID w =
     await (call ''fetchRecipeByID'' (appService ''fetchRecipeByID'' fetchRecipeByID)
              (\<lambda>fetchRecipeByID. fetchRecipeByID getConn RecipeID) w)
       (\<lambda>recipe.
          if length recipe = 0 then json 404 (Error ''Recipe not found'')
          else json 200 (Data recipe))"

text \<open>GET /recipes/liked, lines 84-91.\<close>

definition get_recipes_liked :: "getConnection \<Rightarrow> world \<Rightarrow> response promise" where
  "get_recipes_liked getConn w =
     await (call ''fetchLikedRecipes'' (appService ''fetchLikedRecipes'' fetchLikedRecipes)
              (\<lambda>fetchLikedRecipes. fetchLikedRecipes getConn) w)
       (\<lambda>recipes.
          if length recipes = 0 then json 404 (Error ''No liked recipes found'')
          else json 200 (Data recipes))"

text \<open>
  POST /recipe, lines 116-124. \<^verbatim>\<open>if (response)\<close>: null is falsy, and so is the number 0.
\<close>

definition post_recipe :: "getConnection \<Rightarrow> recipe \<Rightarrow> world \<Rightarrow> response promise" where
  "post_recipe getConn recipe w =
     await (call ''createRecipe'' (appService ''createRecipe'' createRecipe)
              (\<lambda>createRecipe. createRecipe getConn recipe) w)
       (\<lambda>response.
          case response of
            None \<Rightarrow> json 500 (Error ''Failed to create recipe'')
          | Some n \<Rightarrow>
              if n \<noteq> 0 then json 201 (MessageResponse ''Recipe created'' n)
              else json 500 (Error ''Failed to create recipe''))"

text \<open>DELETE /recipe/:id as registered first, lines 129-137.\<close>

definition delete_recipe :: "getConnection \<Rightarrow> int \<Rightarrow> world \<Rightarrow> response promise" where
  "delete_recipe getConn recipeID w =
     await (call ''deleteRecipe'' (appService ''deleteRecipe'' deleteRecipe)
              (\<lambda>deleteRecipe. deleteRecipe getConn recipeID) w)
       (\<lambda>rowsAffected.
          if rowsAffected > 0 then json 200 (Message ''Recipe deleted'')
          else json 404 (Error ''Recipe not found or not deleted''))"

type_synonym insertStep_fn = "nat \<Rightarrow> string \<Rightarrow> int \<Rightarrow> world \<Rightarrow> bool promise"

text \<open>
  The loop of POST /steps/:id, lines 191-198, from index \<open>i\<close>; its value is the flag
  \<^verbatim>\<open>success\<close>. The property read \<^verbatim>\<open>appService.insertStep\<close> gives the same
  value in every iteration (nothing assigns to the module object), so the loop takes that
  value as its first argument. The response of \<^verbatim>\<open>insertStep\<close> is taken by its
  truthiness. \<^verbatim>\<open>console.log(response)\<close> writes to standard output, which the world
  does not record.
\<close>

function steps_loop :: "insertStep_fn option \<Rightarrow> int \<Rightarrow> string list \<Rightarrow> nat \<Rightarrow> world \<Rightarrow> bool promise" where
  "steps_loop property recipeID steps i w =
     (if i < length steps then
        await (call ''insertStep'' property
                 (\<lambda>insertStep. insertStep (i + 1) (steps ! i) recipeID) w)
          (\<lambda>response w'.
             if \<not> response then (Inr False, w')
             else steps_loop property recipeID steps (i + 1) w')
      else (Inr True, w))"
  by pat_completeness auto
termination
  by (relation "measure (\<lambda>(property, recipeID, steps, i, w). length steps - i)") auto

text \<open>
  POST /steps/:id, lines 186-205. appService.js has no function \<^verbatim>\<open>insertStep\<close>; as
  for GET /recipes the handler is given the function \<open>f\<close> one might write under that
  name and reads the property from the module object.
\<close>

definition post_steps :: "insertStep_fn \<Rightarrow> int \<Rightarrow> string list \<Rightarrow> world \<Rightarrow> response promise" where
  "post_steps f recipeID steps w =
     await (steps_loop (appService ''insertStep'' f) recipeID steps 0 w)
       (\<lambda>success.
          if success then json 201 (Message ''Steps inserted successfully'')
          else json 500 (Error ''Failed to insert all steps''))"

text \<open>
  GET /user/:id, lines 218-223. \<^verbatim>\<open>fetchUser\<close> has one parameter; the second argument of
  the call, \<^verbatim>\<open>columns\<close>, is bound to nothing.
\<close>

definition get_user :: "getConnection \<Rightarrow> query_value option \<Rightarrow> int \<Rightarrow> world \<Rightarrow> response promise" where
  "get_user getConn columns_param UserID w =
     (case columns_of columns_param of
        Inl err \<Rightarrow> (Inl err, w)
      | Inr columns \<Rightarrow>
          await (call ''fetchUser'' (appService ''fetchUser'' fetchUser)
                   (\<lambda>fetchUser. (\<lambda>(arg1, arg2). fetchUser getConn arg1) (UserID, columns)) w)
            (\<lambda>tableContent. json 200 (Data tableContent)))"

text \<open>GET /users, lines 228-232.\<close>

definition get_users :: "getConnection \<Rightarrow> query_value option \<Rightarrow> world \<Rightarrow> response promise" where
  "get_users getConn columns_param w =
     (case columns_of columns_param of
        Inl err \<Rightarrow> (Inl err, w)
      | Inr columns \<Rightarrow>
          await (call ''fetchAllUsers'' (appService ''fetchAllUsers'' fetchAllUsers)
                   (\<lambda>fetchAllUsers. fetchAllUsers getConn columns) w)
            (\<lambda>tableContent. json 200 (Data tableContent)))"

text \<open>GET /pantry/:id, lines 261-265.\<close>

definition get_pantry :: "getConnection \<Rightarrow> int \<Rightarrow> world \<Rightarrow> response promise" where
  "get_pantry getConn UserID w =
     await (call ''fetchPantries'' (appService ''fetchPantries'' fetchPantries)
              (\<lambda>fetchPantries. fetchPantries getConn UserID) w)
       (\<lambda>tableContent. json 200 (Data tableContent))"

text \<open>PUT /recipe/:id, lines 274-283; the path's id replaces any RecipeID of the body.\<close>

definition put_recipe :: "getConnection \<Rightarrow> int \<Rightarrow> 'x recipe_scheme \<Rightarrow> world \<Rightarrow> response promise" where
  "put_recipe getConn RecipeID req_body w =
     (let recipe = \<lparr>recipe_RecipeName = recipe_RecipeName req_body, recipe_Cuisine = recipe_Cuisine req_body,
                     recipe_CookingTime = recipe_CookingTime req_body, recipe_UserID = recipe_UserID req_body,
                     recipe_RecipeID = RecipeID\<rparr>
      in await (call ''updateRecipe'' (appService ''updateRecipe'' updateRecipe)
                  (\<lambda>updateRecipe. updateRecipe getConn recipe) w)
           (\<lambda>rowsAffected.
              if rowsAffected > 0 then json 200 (Message ''Recipe updated'')
              else json 404 (Error ''Recipe not found or not updated'')))"

text \<open>DELETE /recipe/:id as registered a second time, lines 288-296.\<close>

definition delete_recipe_second :: "getConnection \<Rightarrow> int \<Rightarrow> world \<Rightarrow> response promise" where
  "delete_recipe_second getConn RecipeID w =
     await (call ''deleteRecipe'' (appService ''deleteRecipe'' deleteRecipe)
              (\<lambda>deleteRecipe. deleteRecipe getConn RecipeID) w)
       (\<lambda>rowsAffected.
          if rowsAffected > 0 then json 200 (Message ''Recipe deleted'')
          else json 404 (Error ''Recipe not found or not deleted''))"

text \<open>GET /locations, lines 303-310.\<close>

definition get_locations :: "getConnection \<Rightarrow> world \<Rightarrow> response promise" where
  "get_locations getConn w =
     await (call ''fetchAllLocations'' (appService ''fetchAllLocations'' fetchAllLocations)
              (\<lambda>fetchAllLocations. fetchAllLocations getConn) w)
       (\<lambda>locations.
          if length locations = 0 then json 404 (Error ''No locations found'')
          else json 200 (Data locations))"

text \<open>
  Express keeps the handlers of a method and path in the order of registration and runs the
  first; a handler that answers without calling \<^verbatim>\<open>next\<close> ends the request. None of the
  handlers above takes \<^verbatim>\<open>next\<close>.
\<close>

definition dispatch :: "('req \<Rightarrow> world \<Rightarrow> response promise) list \<Rightarrow> 'req \<Rightarrow> world \<Rightarrow> response promise option" where
  "dispatch handlers req w = (case handlers of [] \<Rightarrow> None | h # later \<Rightarrow> Some (h req w))"

subsection \<open>Outcomes of the driver named by the specification\<close>

text \<open>A connection-acquisition failure or a statement-execution failure.\<close>

definition failure :: "getConnection \<Rightarrow> bool" where
  "failure getConn = (case getConn of Inl err \<Rightarrow> True | Inr connection \<Rightarrow> execute_err connection \<noteq> None)"

text \<open>The same, or a failure of the commit that follows an INSERT, UPDATE or DELETE.\<close>

definition write_failure :: "getConnection \<Rightarrow> bool" where
  "write_failure getConn =
     (case getConn of
        Inl err \<Rightarrow> True
      | Inr connection \<Rightarrow> execute_err connection \<noteq> None \<or> commit_err connection \<noteq> None)"

text \<open>
  The specification's rank: the tier of \<^verbatim>\<open>User1\<close> whose threshold is the greatest
  value not exceeding the user's points.
\<close>

definition greatest_tier :: "database \<Rightarrow> User2 \<Rightarrow> User1 \<Rightarrow> bool" where
  "greatest_tier d u p \<longleftrightarrow>
     p \<in> set (tbl_User1 d) \<and> p_Points p \<le> u_Points u \<and>
     (\<forall>q \<in> set (tbl_User1 d). p_Points q \<le> u_Points u \<longrightarrow> p_Points q \<le> p_Points p)"

text \<open>
  The specification's loop over the instructions: one call of \<^verbatim>\<open>insertStep\<close> per
  instruction, in list order, numbered from \<open>n\<close>; the first failed insert ends the
  loop, and the world is the one the calls made so far have left.
\<close>

fun insert_in_order :: "insertStep_fn \<Rightarrow> int \<Rightarrow> nat \<Rightarrow> string list \<Rightarrow> world \<Rightarrow> bool promise" where
  "insert_in_order insertStep recipeID n [] w = (Inr True, w)"
| "insert_in_order insertStep recipeID n (instruction # rest) w =
     (case insertStep n instruction recipeID w of
        (Inl err, w') \<Rightarrow> (Inl err, w')
      | (Inr inserted, w') \<Rightarrow>
          if inserted then insert_in_order insertStep recipeID (Suc n) rest w'
          else (Inr False, w'))"

text \<open>A query parameter that is absent or given once, as a single string.\<close>

definition absent_or_string :: "query_value option \<Rightarrow> bool" where
  "absent_or_string q =
     (case q of
        None \<Rightarrow> True
      | Some (QString s) \<Rightarrow> True
      | Some (QArray values) \<Rightarrow> False
      | Some (QObject entries) \<Rightarrow> False)"

subsection \<open>A small store\<close>

definition ok_connection :: connection where
  "ok_connection = \<lparr>execute_err = None, commit_err = None, close_err = None\<rparr>"

definition example_db :: database where
  "example_db =
     \<lparr>tbl_RecipeCreated2 =
        [\<lparr>r_RecipeID = 7, r_RecipeName = ''Pasta Verde'', r_Cuisine = ''Italian'',
          r_CookingTime = ''00 00:30:00'', r_UserID = 3\<rparr>],
      tbl_RecipeCreated1 = [\<lparr>rc_Cuisine = ''Italian'', rc_RecipeLevel = ''Easy''\<rparr>],
      tbl_Users2 = [\<lparr>us_UserID = 3, us_UserName = ''Ford Prefect''\<rparr>],
      tbl_RecipesLiked = [],
      tbl_User2 =
        [\<lparr>u_UserID = 1, u_UserName = ''Arthur'', u_Points = 100\<rparr>,
         \<lparr>u_UserID = 3, u_UserName = ''Ford Prefect'', u_Points = 250\<rparr>],
      tbl_User1 =
        [\<lparr>p_Points = 0, p_UserLevel = ''Novice''\<rparr>,
         \<lparr>p_Points = 100, p_UserLevel = ''Cook''\<rparr>,
         \<lparr>p_Points = 200, p_UserLevel = ''Chef''\<rparr>],
      tbl_UserPantries = [],
      tbl_SavedPantry = [],
      tbl_Locations = [],
      recipe_seq = 7\<rparr>"

definition example_world :: world where
  "example_world = \<lparr>db = example_db, busy = 0, console = []\<rparr>"

definition two_recipes_world :: world where
  "two_recipes_world =
     example_world\<lparr>db := example_db\<lparr>tbl_RecipeCreated2 :=
        [\<lparr>r_RecipeID = 7, r_RecipeName = ''Pasta Verde'', r_Cuisine = ''Italian'',
          r_CookingTime = ''00 00:30:00'', r_UserID = 3\<rparr>,
         \<lparr>r_RecipeID = 8, r_RecipeName = ''Moussaka'', r_Cuisine = ''Greek'',
          r_CookingTime = ''00 01:15:00'', r_UserID = 3\<rparr>]\<rparr>\<rparr>"

definition one_recipe_left :: world where
  "one_recipe_left =
     example_world\<lparr>db := example_db\<lparr>tbl_RecipeCreated2 :=
        [\<lparr>r_RecipeID = 8, r_RecipeName = ''Moussaka'', r_Cuisine = ''Greek'',
          r_CookingTime = ''00 01:15:00'', r_UserID = 3\<rparr>]\<rparr>\<rparr>"

definition empty_db :: database where
  "empty_db =
     \<lparr>tbl_RecipeCreated2 = [], tbl_RecipeCreated1 = [], tbl_Users2 = [], tbl_RecipesLiked = [],
      tbl_User2 = [], tbl_User1 = [], tbl_UserPantries = [], tbl_SavedPantry = [],
      tbl_Locations = [], recipe_seq = 0\<rparr>"

definition empty_world :: world where
  "empty_world = \<lparr>db = empty_db, busy = 0, console = []\<rparr>"

subsection \<open>Promises, property reads and the wrapper\<close>

lemma exported:
  "appService ''fetchUser'' f1 = Some f1"
  "appService ''fetchAllUsers'' f2 = Some f2"
  "appService ''fetchPantries'' f3 = Some f3"
  "appService ''fetchRecipeByID'' f4 = Some f4"
  "appService ''createRecipe'' f5 = Some f5"
  "appService ''updateRecipe'' f6 = Some f6"
  "appService ''deleteRecipe'' f7 = Some f7"
  "appService ''fetchAllLocations'' f8 = Some f8"
  "appService ''fetchLikedRecipes'' f9 = Some f9"
  by (simp_all add: appService_def appService_exports_def)

lemma not_exported:
  "appService ''fetchRecipes'' g1 = None"
  "appService ''insertStep'' g2 = None"
  by (simp_all add: appService_def appService_exports_def)

lemma columns_of_string:
  "absent_or_string q \<Longrightarrow> \<exists>columns. columns_of q = Inr columns"
  by (auto simp: absent_or_string_def columns_of_def split: option.splits query_value.splits)

lemma columns_of_other:
  "\<not> absent_or_string q \<Longrightarrow> columns_of q = Inl (TypeError ''req.query.columns.split is not a function'')"
  by (auto simp: absent_or_string_def columns_of_def split: option.splits query_value.splits)

lemma call_exported: "call name (Some f) args w = args f w"
  by (simp add: call_def)

lemma await_fst_Inr: "fst p = Inr v \<Longrightarrow> await p k = k v (snd p)"
  by (cases p) (simp add: await_def)

lemma catch_resolves: "\<exists>v. fst (catch p h) = Inr v"
  by (cases p; cases "fst p") (auto simp: catch_def split: prod.splits)

lemma catch_rejected: "fst p = Inl err \<Longrightarrow> fst (catch p h) = Inr (fst (h err (snd p)))"
  by (cases p) (auto simp: catch_def split: prod.splits)

lemma withOracleDB_fst:
  "fst (withOracleDB getConn action w) =
     (case getConn of Inl err \<Rightarrow> Inl err | Inr connection \<Rightarrow> fst (action connection (db w)))"
  by (auto simp: withOracleDB_def Let_def split: sum.splits prod.splits)

lemma query_fst:
  "fst (catch (withOracleDB getConn (\<lambda>connection. execute_query connection q) w) h) =
     (case getConn of
        Inl err \<Rightarrow> Inr (fst (h err (console_error err w)))
      | Inr connection \<Rightarrow>
          (case execute_err connection of
             None \<Rightarrow> Inr (q (db w))
           | Some err \<Rightarrow>
               Inr (fst (h err (close_connection connection
                                  (console_error err (w\<lparr>busy := busy w + 1, db := db w\<rparr>)))))))"
  by (auto simp: catch_def withOracleDB_def execute_query_def Let_def
        split: sum.splits option.splits prod.splits)

lemma query_failure:
  "failure getConn \<Longrightarrow> \<exists>err. fst (withOracleDB getConn (\<lambda>connection. execute_query connection q) w) = Inl err"
  by (auto simp: withOracleDB_fst failure_def execute_query_def split: sum.splits option.splits)

lemma commit_failure:
  "write_failure getConn \<Longrightarrow> \<exists>err. fst (withOracleDB getConn (\<lambda>connection. execute_commit connection stmt) w) = Inl err"
  by (auto simp: withOracleDB_fst write_failure_def execute_commit_def split: sum.splits option.splits prod.splits)

lemma failure_write_failure: "failure getConn \<Longrightarrow> write_failure getConn"
  by (auto simp: failure_def write_failure_def split: sum.splits)

lemma createRecipe_failure:
  "write_failure getConn \<Longrightarrow> fst (createRecipe getConn recipe w) = Inr None"
  using commit_failure [of getConn "sql_createRecipe recipe" w]
  by (auto simp: createRecipe_def catch_rejected)

lemma deleteRecipe_failure:
  "write_failure getConn \<Longrightarrow> fst (deleteRecipe getConn recipeID w) = Inr 0"
  using commit_failure [of getConn "sql_deleteRecipe recipeID" w]
  by (auto simp: deleteRecipe_def catch_rejected)

lemma updateRecipe_failure:
  "write_failure getConn \<Longrightarrow> fst (updateRecipe getConn recipe w) = Inr 0"
  using commit_failure [of getConn "sql_updateRecipe recipe" w]
  by (auto simp: updateRecipe_def catch_rejected)

subsection \<open>GET /recipes\<close>

text \<open>
  The recipe executor that appService.js does define, \<^verbatim>\<open>fetchAllRecipes\<close>: its rows
  come in ascending RecipeID.
\<close>

lemma fetchAllRecipes_ordered:
  assumes "getConn = Inr connection" and "execute_err connection = None"
  shows "\<exists>joined :: (RecipeCreated2 \<times> RecipeCreated1 \<times> Users2) list.
           fst (fetchAllRecipes getConn w) =
             Inr (map (\<lambda>(r, rc, u). [SqlNum (r_RecipeID r), SqlStr (r_RecipeName r), SqlStr (r_Cuisine r),
                                      SqlStr (rc_RecipeLevel rc), SqlStr (r_CookingTime r),
                                      SqlStr (us_UserName u)]) joined) \<and>
           sorted (map (\<lambda>(r, rc, u). r_RecipeID r) joined)"
proof -
  let ?joined = "sort_key (\<lambda>(r, rc, u). r_RecipeID r)
                   [(r, rc, u).
                      r \<leftarrow> tbl_RecipeCreated2 (db w),
                      rc \<leftarrow> tbl_RecipeCreated1 (db w), r_Cuisine r = rc_Cuisine rc,
                      u \<leftarrow> tbl_Users2 (db w), r_UserID r = us_UserID u]"
  have rows: "fst (fetchAllRecipes getConn w) = Inr (sql_fetchAllRecipes (db w))"
    using assms by (simp add: fetchAllRecipes_def query_fst)
  have ordered: "sorted (map (\<lambda>(r, rc, u). r_RecipeID r) ?joined)"
    by (rule sorted_sort_key)
  have joined: "fst (fetchAllRecipes getConn w) =
      Inr (map (\<lambda>(r, rc, u). [SqlNum (r_RecipeID r), SqlStr (r_RecipeName r), SqlStr (r_Cuisine r),
                               SqlStr (rc_RecipeLevel rc), SqlStr (r_CookingTime r),
                               SqlStr (us_UserName u)]) ?joined)"
    using rows by (simp only: sql_fetchAllRecipes_def)
  show ?thesis
    by (rule exI [where x = ?joined]) (rule conjI [OF joined ordered])
qed

text \<open>
  Claim C1 says that every call of \<^verbatim>\<open>fetchRecipes\<close>, the executor behind
  GET /recipes, yields a sequence of rows ordered by RecipeID, empty when nothing matches
  or the query fails. appService.js defines and exports no \<^verbatim>\<open>fetchRecipes\<close>:
  whatever the query string, the store and the function one would write under that name,
  the handler throws a TypeError, before any statement is issued and before any response
  is sent: at the call of \<^verbatim>\<open>appService.fetchRecipes\<close>, or already at
  \<^verbatim>\<open>.split\<close> when \<^verbatim>\<open>columns\<close> arrives as an array or object.
\<close>

theorem get_recipes_throws:
  "get_recipes f q w =
     (Inl (TypeError (if absent_or_string (q_columns q)
                      then ''appService.fetchRecipes is not a function''
                      else ''req.query.columns.split is not a function'')), w)"
proof (cases "absent_or_string (q_columns q)")
  case True
  then obtain columns where "columns_of (q_columns q) = Inr columns"
    using columns_of_string by blast
  with True show ?thesis
    by (simp add: get_recipes_def not_exported call_def await_def Let_def)
next
  case False
  then show ?thesis
    by (simp add: get_recipes_def columns_of_other)
qed

subsection \<open>Empty results on GET routes\<close>

text \<open>
  Claim C2 says that every GET route answers an empty result with status 404 and an error
  body, GET /user/:id, GET /users and GET /pantry/:id included. On the store below no user
  has id 9: \<^verbatim>\<open>fetchUser\<close> succeeds with no rows and GET /user/9 answers 200 with
  \<^verbatim>\<open>{data: []}\<close>.
\<close>

theorem get_user_empty_is_200:
  "fst (fetchUser (Inr ok_connection) 9 example_world) = Inr [] \<and>
   fst (get_user (Inr ok_connection) None 9 example_world) = Inr \<lparr>status = 200, body = Data []\<rparr>"
proof -
  have empty: "fst (fetchUser (Inr ok_connection) 9 example_world) = Inr []"
    by (simp add: fetchUser_def query_fst ok_connection_def sql_fetchUser_def example_world_def
          example_db_def)
  then show ?thesis
    by (simp add: get_user_def columns_of_def exported call_exported await_fst_Inr json_def)
qed

text \<open>
  Claim C2 as amended: GET /recipe/:id, GET /recipes/liked and GET /locations answer an
  empty result with status 404 and an error body; GET /user/:id, GET /users and
  GET /pantry/:id answer it with status 200 and \<^verbatim>\<open>{data: []}\<close>. (The user routes
  reach their executor when \<^verbatim>\<open>columns\<close> is absent or a single string.)
\<close>

theorem get_routes_on_empty_result:
  "(fst (fetchRecipeByID getConn RecipeID w) = Inr [] \<longrightarrow>
      fst (get_recipe getConn RecipeID w) = Inr \<lparr>status = 404, body = Error ''Recipe not found''\<rparr>) \<and>
   (fst (fetchLikedRecipes getConn w) = Inr [] \<longrightarrow>
      fst (get_recipes_liked getConn w) = Inr \<lparr>status = 404, body = Error ''No liked recipes found''\<rparr>) \<and>
   (fst (fetchAllLocations getConn w) = Inr [] \<longrightarrow>
      fst (get_locations getConn w) = Inr \<lparr>status = 404, body = Error ''No locations found''\<rparr>) \<and>
   (absent_or_string columns \<and> fst (fetchUser getConn UserID w) = Inr [] \<longrightarrow>
      fst (get_user getConn columns UserID w) = Inr \<lparr>status = 200, body = Data []\<rparr>) \<and>
   (absent_or_string columns \<and> fst (fetchAllUsers getConn (arg :: string list option) w) = Inr [] \<longrightarrow>
      fst (get_users getConn columns w) = Inr \<lparr>status = 200, body = Data []\<rparr>) \<and>
   (fst (fetchPantries getConn UserID w) = Inr [] \<longrightarrow>
      fst (get_pantry getConn UserID w) = Inr \<lparr>status = 200, body = Data []\<rparr>)"
proof -
  have recipe: "fst (fetchRecipeByID getConn RecipeID w) = Inr [] \<longrightarrow>
      fst (get_recipe getConn RecipeID w) = Inr \<lparr>status = 404, body = Error ''Recipe not found''\<rparr>"
    by (simp add: get_recipe_def exported call_exported await_fst_Inr json_def)
  have liked: "fst (fetchLikedRecipes getConn w) = Inr [] \<longrightarrow>
      fst (get_recipes_liked getConn w) = Inr \<lparr>status = 404, body = Error ''No liked recipes found''\<rparr>"
    by (simp add: get_recipes_liked_def exported call_exported await_fst_Inr json_def)
  have locations: "fst (fetchAllLocations getConn w) = Inr [] \<longrightarrow>
      fst (get_locations getConn w) = Inr \<lparr>status = 404, body = Error ''No locations found''\<rparr>"
    by (simp add: get_locations_def exported call_exported await_fst_Inr json_def)
  have user: "fst (get_user getConn columns UserID w) = Inr \<lparr>status = 200, body = Data []\<rparr>"
    if single: "absent_or_string columns" and empty: "fst (fetchUser getConn UserID w) = Inr []"
  proof -
    obtain c where "columns_of columns = Inr c"
      using columns_of_string [OF single] by blast
    with empty show ?thesis
      by (simp add: get_user_def exported call_exported await_fst_Inr json_def)
  qed
  have users: "fst (get_users getConn columns w) = Inr \<lparr>status = 200, body = Data []\<rparr>"
    if single: "absent_or_string columns" and empty: "fst (fetchAllUsers getConn arg w) = Inr []"
  proof -
    obtain c where c: "columns_of columns = Inr c"
      using columns_of_string [OF single] by blast
    have "fetchAllUsers getConn c w = fetchAllUsers getConn arg w"
      by (simp add: fetchAllUsers_def)
    with empty c show ?thesis
      by (simp add: get_users_def exported call_exported await_fst_Inr json_def)
  qed
  have pantry: "fst (fetchPantries getConn UserID w) = Inr [] \<longrightarrow>
      fst (get_pantry getConn UserID w) = Inr \<lparr>status = 200, body = Data []\<rparr>"
    by (simp add: get_pantry_def exported call_exported await_fst_Inr json_def)
  from recipe liked locations user users pantry show ?thesis by blast
qed

theorem get_routes_on_empty_result_witness:
  "fst (fetchRecipeByID (Inr ok_connection) 99 empty_world) = Inr [] \<and>
   fst (get_recipe (Inr ok_connection) 99 empty_world) = Inr \<lparr>status = 404, body = Error ''Recipe not found''\<rparr> \<and>
   fst (fetchLikedRecipes (Inr ok_connection) empty_world) = Inr [] \<and>
   fst (get_recipes_liked (Inr ok_connection) empty_world) = Inr \<lparr>status = 404, body = Error ''No liked recipes found''\<rparr> \<and>
   fst (fetchAllLocations (Inr ok_connection) empty_world) = Inr [] \<and>
   fst (get_locations (Inr ok_connection) empty_world) = Inr \<lparr>status = 404, body = Error ''No locations found''\<rparr> \<and>
   fst (fetchUser (Inr ok_connection) 9 empty_world) = Inr [] \<and>
   fst (get_user (Inr ok_connection) None 9 empty_world) = Inr \<lparr>status = 200, body = Data []\<rparr> \<and>
   fst (fetchAllUsers (Inr ok_connection) (None :: string list option) empty_world) = Inr [] \<and>
   fst (get_users (Inr ok_connection) None empty_world) = Inr \<lparr>status = 200, body = Data []\<rparr> \<and>
   fst (fetchPantries (Inr ok_connection) 9 empty_world) = Inr [] \<and>
   fst (get_pantry (Inr ok_connection) 9 empty_world) = Inr \<lparr>status = 200, body = Data []\<rparr>"
proof -
  have h1: "fst (fetchRecipeByID (Inr ok_connection) 99 empty_world) = Inr []"
    by (simp add: fetchRecipeByID_def query_fst ok_connection_def sql_fetchRecipeByID_def
          empty_world_def empty_db_def)
  have h2: "fst (fetchLikedRecipes (Inr ok_connection) empty_world) = Inr []"
    by (simp add: fetchLikedRecipes_def query_fst ok_connection_def sql_fetchLikedRecipes_def
          empty_world_def empty_db_def)
  have h3: "fst (fetchAllLocations (Inr ok_connection) empty_world) = Inr []"
    by (simp add: fetchAllLocations_def query_fst ok_connection_def sql_fetchAllLocations_def
          empty_world_def empty_db_def)
  have h4: "fst (fetchUser (Inr ok_connection) 9 empty_world) = Inr []"
    by (simp add: fetchUser_def query_fst ok_connection_def sql_fetchUser_def
          empty_world_def empty_db_def)
  have h5: "fst (fetchAllUsers (Inr ok_connection) (None :: string list option) empty_world) = Inr []"
    by (simp add: fetchAllUsers_def query_fst ok_connection_def sql_fetchAllUsers_def
          empty_world_def empty_db_def)
  have h6: "fst (fetchPantries (Inr ok_connection) 9 empty_world) = Inr []"
    by (simp add: fetchPantries_def query_fst ok_connection_def sql_fetchPantries_def
          empty_world_def empty_db_def)
  have h0: "absent_or_string None"
    by (simp add: absent_or_string_def)
  from get_routes_on_empty_result
         [where getConn = "Inr ok_connection" and RecipeID = 99 and w = empty_world and UserID = 9
            and columns = None and arg = None]
       h0 h1 h2 h3 h4 h5 h6
  show ?thesis by blast
qed

subsection \<open>Failures on mutating routes\<close>

text \<open>
  Claim C3 says that POST /recipe, PUT /recipe/:id and DELETE /recipe/:id answer a failure
  reported by the executor with status 500. With no connection to be had,
  \<^verbatim>\<open>deleteRecipe\<close> reports 0 and DELETE /recipe/7 answers 404.
\<close>

theorem delete_failure_is_404:
  "fst (deleteRecipe (Inl (OraError ''NJS-040'')) 7 example_world) = Inr 0 \<and>
   fst (delete_recipe (Inl (OraError ''NJS-040'')) 7 example_world) =
     Inr \<lparr>status = 404, body = Error ''Recipe not found or not deleted''\<rparr>"
proof -
  have zero: "fst (deleteRecipe (Inl (OraError ''NJS-040'')) 7 example_world) = Inr 0"
    by (rule deleteRecipe_failure) (simp add: write_failure_def)
  then show ?thesis
    by (simp add: delete_recipe_def exported call_exported await_fst_Inr json_def)
qed

text \<open>
  Claim C3 as amended: when the connection cannot be acquired, or the statement or its
  commit fails, POST /recipe answers 500 with an error body, and PUT /recipe/:id and
  DELETE /recipe/:id (either registration) answer 404 with the error body
  "Recipe not found or not updated" / "Recipe not found or not deleted".
\<close>

theorem mutating_routes_on_failure:
  assumes "write_failure getConn"
  shows "fst (post_recipe getConn recipe w) = Inr \<lparr>status = 500, body = Error ''Failed to create recipe''\<rparr> \<and>
         fst (put_recipe getConn RecipeID req_body w) =
           Inr \<lparr>status = 404, body = Error ''Recipe not found or not updated''\<rparr> \<and>
         fst (delete_recipe getConn recipeID w) =
           Inr \<lparr>status = 404, body = Error ''Recipe not found or not deleted''\<rparr> \<and>
         fst (delete_recipe_second getConn recipeID w) =
           Inr \<lparr>status = 404, body = Error ''Recipe not found or not deleted''\<rparr>"
  using createRecipe_failure [OF assms, of recipe w] deleteRecipe_failure [OF assms, of recipeID w]
    updateRecipe_failure [OF assms]
  by (simp add: post_recipe_def put_recipe_def delete_recipe_def delete_recipe_second_def Let_def
        exported call_exported await_fst_Inr json_def)

theorem mutating_routes_on_failure_witness:
  "write_failure (Inl (OraError ''NJS-040'')) \<and>
   fst (post_recipe (Inl (OraError ''NJS-040''))
          \<lparr>recipe_RecipeName = ''Pasta Verde'', recipe_Cuisine = ''Italian'',
            recipe_CookingTime = ''00 00:30:00'', recipe_UserID = 3\<rparr> example_world) =
     Inr \<lparr>status = 500, body = Error ''Failed to create recipe''\<rparr> \<and>
   fst (delete_recipe (Inl (OraError ''NJS-040'')) 7 example_world) =
     Inr \<lparr>status = 404, body = Error ''Recipe not found or not deleted''\<rparr>"
proof -
  have f: "write_failure (Inl (OraError ''NJS-040''))"
    by (simp add: write_failure_def)
  from mutating_routes_on_failure [OF f] f show ?thesis by blast
qed

subsection \<open>The rank of a user\<close>

lemma sql_max_eq: "sql_max xs = (if xs = [] then None else Some (Max (set xs)))"
proof (cases xs)
  case Nil
  then show ?thesis by (simp add: sql_max_def)
next
  case (Cons x rest)
  then show ?thesis
    using Max.set_eq_fold [of x rest] by (simp add: sql_max_def)
qed

lemma rank_condition:
  assumes "p \<in> set (tbl_User1 d)"
  shows "(p_Points p \<le> u_Points u \<and> Some (p_Points p) = max_Points_upto d u) = greatest_tier d u p"
proof (cases "p_Points p \<le> u_Points u")
  case False
  then show ?thesis by (simp add: greatest_tier_def)
next
  case True
  define xs where "xs = [p_Points q. q \<leftarrow> tbl_User1 d, p_Points q \<le> u_Points u]"
  have set_xs: "set xs = {x. \<exists>q \<in> set (tbl_User1 d). p_Points q \<le> u_Points u \<and> x = p_Points q}"
    unfolding xs_def by auto
  have mem: "p_Points p \<in> set xs"
    unfolding set_xs using assms True by blast
  then have nonempty: "xs \<noteq> []" by (cases xs) simp_all
  have upto: "max_Points_upto d u = Some (Max (set xs))"
    using nonempty by (simp add: max_Points_upto_def sql_max_eq xs_def)
  have "(p_Points p = Max (set xs)) = (\<forall>x \<in> set xs. x \<le> p_Points p)"
  proof
    assume "p_Points p = Max (set xs)"
    then show "\<forall>x \<in> set xs. x \<le> p_Points p" by simp
  next
    assume "\<forall>x \<in> set xs. x \<le> p_Points p"
    with mem have "Max (set xs) = p_Points p" by (intro Max_eqI) simp_all
    then show "p_Points p = Max (set xs)" by simp
  qed
  also have "\<dots> = (\<forall>q \<in> set (tbl_User1 d). p_Points q \<le> u_Points u \<longrightarrow> p_Points q \<le> p_Points p)"
    unfolding set_xs by blast
  finally have "(p_Points p = Max (set xs)) =
      (\<forall>q \<in> set (tbl_User1 d). p_Points q \<le> u_Points u \<longrightarrow> p_Points q \<le> p_Points p)" .
  then show ?thesis
    using True assms upto by (simp add: greatest_tier_def)
qed

lemma sql_fetchUser_greatest:
  "sql_fetchUser UserID d =
     [user_row u p. u \<leftarrow> tbl_User2 d, p \<leftarrow> tbl_User1 d, u_UserID u = UserID \<and> greatest_tier d u p]"
proof -
  have "\<And>u p. p \<in> set (tbl_User1 d) \<Longrightarrow>
          (if p_Points p \<le> u_Points u
           then if u_UserID u = UserID \<and> Some (p_Points p) = max_Points_upto d u then [user_row u p] else []
           else []) =
          (if u_UserID u = UserID \<and> greatest_tier d u p then [user_row u p] else [])"
    using rank_condition by auto
  then show ?thesis
    unfolding sql_fetchUser_def
    by (intro arg_cong [where f = concat] map_cong refl) simp
qed

lemma sql_fetchAllUsers_greatest:
  "sql_fetchAllUsers d =
     map (\<lambda>(u, p). user_row u p)
       (sort_key (\<lambda>(u, p). u_UserID u)
          [(u, p). u \<leftarrow> tbl_User2 d, p \<leftarrow> tbl_User1 d, greatest_tier d u p])"
proof -
  have "\<And>u p. p \<in> set (tbl_User1 d) \<Longrightarrow>
          (if p_Points p \<le> u_Points u
           then if Some (p_Points p) = max_Points_upto d u then [(u, p)] else []
           else []) =
          (if greatest_tier d u p then [(u, p)] else [])"
    using rank_condition by auto
  then have "[(u, p). u \<leftarrow> tbl_User2 d, p \<leftarrow> tbl_User1 d, u_Points u \<ge> p_Points p,
                Some (p_Points p) = max_Points_upto d u] =
             [(u, p). u \<leftarrow> tbl_User2 d, p \<leftarrow> tbl_User1 d, greatest_tier d u p]"
    by (intro arg_cong [where f = concat] map_cong refl) simp
  then show ?thesis
    unfolding sql_fetchAllUsers_def by simp
qed

text \<open>
  Claim C4: when the connection is acquired and the statement runs, \<^verbatim>\<open>fetchUser\<close>
  and \<^verbatim>\<open>fetchAllUsers\<close> pair each user with exactly the tiers whose threshold is
  the greatest value not exceeding the user's points; a tier whose threshold equals the
  user's points is selected for that user.
\<close>

theorem rank_is_greatest_tier:
  assumes "getConn = Inr connection" and "execute_err connection = None"
  shows "fst (fetchUser getConn UserID w) =
           Inr [user_row u p. u \<leftarrow> tbl_User2 (db w), p \<leftarrow> tbl_User1 (db w),
                              u_UserID u = UserID \<and> greatest_tier (db w) u p] \<and>
         fst (fetchAllUsers getConn arg w) =
           Inr (map (\<lambda>(u, p). user_row u p)
                  (sort_key (\<lambda>(u, p). u_UserID u)
                     [(u, p). u \<leftarrow> tbl_User2 (db w), p \<leftarrow> tbl_User1 (db w), greatest_tier (db w) u p])) \<and>
         (\<forall>u \<in> set (tbl_User2 (db w)). \<forall>p \<in> set (tbl_User1 (db w)).
            p_Points p = u_Points u \<longrightarrow>
              (\<exists>rows. fst (fetchUser getConn (u_UserID u) w) = Inr rows \<and> user_row u p \<in> set rows) \<and>
              (\<exists>rows. fst (fetchAllUsers getConn arg w) = Inr rows \<and> user_row u p \<in> set rows))"
proof -
  have one: "fst (fetchUser getConn X w) =
           Inr [user_row u p. u \<leftarrow> tbl_User2 (db w), p \<leftarrow> tbl_User1 (db w),
                              u_UserID u = X \<and> greatest_tier (db w) u p]" for X
    using assms by (simp add: fetchUser_def query_fst sql_fetchUser_greatest)
  have all: "fst (fetchAllUsers getConn arg w) =
           Inr (map (\<lambda>(u, p). user_row u p)
                  (sort_key (\<lambda>(u, p). u_UserID u)
                     [(u, p). u \<leftarrow> tbl_User2 (db w), p \<leftarrow> tbl_User1 (db w), greatest_tier (db w) u p]))"
    using assms by (simp add: fetchAllUsers_def query_fst sql_fetchAllUsers_greatest)
  have boundary: "greatest_tier (db w) u p"
    if "p \<in> set (tbl_User1 (db w))" and "p_Points p = u_Points u" for u p
    using that by (simp add: greatest_tier_def)
  have "user_row u p \<in> set [user_row u' p'. u' \<leftarrow> tbl_User2 (db w), p' \<leftarrow> tbl_User1 (db w),
                              u_UserID u' = u_UserID u \<and> greatest_tier (db w) u' p']"
    if "u \<in> set (tbl_User2 (db w))" and "p \<in> set (tbl_User1 (db w))" and "p_Points p = u_Points u" for u p
    using that boundary [OF that(2,3)] by auto
  moreover have "user_row u p \<in> set (map (\<lambda>(u, p). user_row u p)
                  (sort_key (\<lambda>(u, p). u_UserID u)
                     [(u, p). u \<leftarrow> tbl_User2 (db w), p \<leftarrow> tbl_User1 (db w), greatest_tier (db w) u p]))"
    if "u \<in> set (tbl_User2 (db w))" and "p \<in> set (tbl_User1 (db w))" and "p_Points p = u_Points u" for u p
    using that boundary [OF that(2,3)] by force
  ultimately show ?thesis
    using one all by simp
qed

theorem rank_is_greatest_tier_witness:
  "fst (fetchUser (Inr ok_connection) 1 example_world) =
     Inr [[SqlNum 1, SqlStr ''Arthur'', SqlNum 100, SqlStr ''Cook'']] \<and>
   fst (fetchAllUsers (Inr ok_connection) () example_world) =
     Inr [[SqlNum 1, SqlStr ''Arthur'', SqlNum 100, SqlStr ''Cook''],
          [SqlNum 3, SqlStr ''Ford Prefect'', SqlNum 250, SqlStr ''Chef'']]"
proof -
  have ok: "execute_err ok_connection = None"
    by (simp add: ok_connection_def)
  from rank_is_greatest_tier [OF refl ok, of 1 example_world "()"] show ?thesis
    by (simp add: greatest_tier_def example_world_def example_db_def user_row_def)
qed

subsection \<open>POST /steps/:id\<close>

text \<open>
  With a function bound to \<^verbatim>\<open>insertStep\<close> the handler's loop is the specification's:
  the instructions from index \<open>i\<close> on are inserted in order under the numbers
  \<open>i + 1\<close>, \<open>i + 2\<close>, ..., up to the first failure, and nothing is undone.
\<close>

lemma steps_loop_in_order:
  "steps_loop (Some insertStep) recipeID steps i w =
     insert_in_order insertStep recipeID (i + 1) (drop i steps) w"
proof (induction "length steps - i" arbitrary: i w)
  case 0
  then have "drop i steps = []" and "\<not> i < length steps" by simp_all
  then show ?case
    by (subst steps_loop.simps) simp
next
  case (Suc k)
  then have less: "i < length steps" and k: "k = length steps - (i + 1)" by simp_all
  have unfold_drop: "drop i steps = steps ! i # drop (i + 1) steps"
    using less by (simp add: Cons_nth_drop_Suc)
  show ?case
  proof (cases "insertStep (i + 1) (steps ! i) recipeID w")
    case (Pair result w')
    then show ?thesis
      using less Suc.hyps(1) [OF k, of w']
      by (subst steps_loop.simps) (simp add: unfold_drop call_def await_def split: sum.splits)
  qed
qed

text \<open>
  Claim C5 says that the handler of POST /steps/:id calls \<^verbatim>\<open>insertStep\<close> once per
  instruction, in order, with step numbers 1, 2, ..., and stops at the first failed insert.
  appService.js defines and exports no \<^verbatim>\<open>insertStep\<close>: on every list with at
  least one instruction the first iteration throws a TypeError; nothing is inserted and no
  response is sent.
\<close>

theorem post_steps_throws:
  "post_steps f recipeID (s # rest) w =
     (Inl (TypeError ''appService.insertStep is not a function''), w)"
proof -
  have "steps_loop None recipeID (s # rest) 0 w =
          (Inl (TypeError ''appService.insertStep is not a function''), w)"
    by (subst steps_loop.simps) (simp add: call_def await_def)
  then show ?thesis
    by (simp add: post_steps_def not_exported await_def)
qed

subsection \<open>The connection wrapper\<close>

text \<open>
  Claim C6: for every action, once a connection is acquired \<^verbatim>\<open>withOracleDB\<close>
  settles exactly as the action does (its value, or its error), and closes the connection
  on both paths: the pool count is back where it was. When \<^verbatim>\<open>close\<close> itself
  fails, that error is the last line logged and the outcome is still the action's. When no
  connection is acquired there is none to release and the acquisition error is logged and
  rethrown.
\<close>

theorem withOracleDB_releases:
  "(case withOracleDB (Inr connection) action w of
      (result, w') \<Rightarrow>
        result = fst (action connection (db w)) \<and>
        db w' = snd (action connection (db w)) \<and>
        busy w' = (case close_err connection of None \<Rightarrow> busy w | Some cerr \<Rightarrow> busy w + 1) \<and>
        console w' = console w @ (case result of Inl err \<Rightarrow> [err] | Inr v \<Rightarrow> [])
                       @ (case close_err connection of None \<Rightarrow> [] | Some cerr \<Rightarrow> [cerr]))
   \<and> withOracleDB (Inl err) action w = (Inl err, w\<lparr>console := console w @ [err]\<rparr>)"
  by (auto simp: withOracleDB_def Let_def close_connection_def console_error_def
           split: prod.splits sum.splits option.splits)

subsection \<open>Errors stop at the executor\<close>

text \<open>
  Claim C7: no executor of appService.js ever rejects, and when the connection cannot be
  acquired or the statement fails each resolves to its default: the empty sequence for
  the executors that return rows, null for \<^verbatim>\<open>createRecipe\<close>, 0 for
  \<^verbatim>\<open>deleteRecipe\<close> and \<^verbatim>\<open>updateRecipe\<close>.
\<close>

theorem executors_swallow_errors:
  "((\<exists>v. fst (testOracleConnection getConn w) = Inr v) \<and>
    (\<exists>v. fst (fetchAllLocations getConn w) = Inr v) \<and>
    (\<exists>v. fst (fetchAllRecipes getConn w) = Inr v) \<and>
    (\<exists>v. fst (fetchLikedRecipes getConn w) = Inr v) \<and>
    (\<exists>v. fst (createRecipe getConn recipe w) = Inr v) \<and>
    (\<exists>v. fst (deleteRecipe getConn recipeID w) = Inr v) \<and>
    (\<exists>v. fst (fetchUser getConn UserID w) = Inr v) \<and>
    (\<exists>v. fst (fetchAllUsers getConn arg w) = Inr v) \<and>
    (\<exists>v. fst (fetchPantries getConn UserID w) = Inr v) \<and>
    (\<exists>v. fst (fetchRecipeByID getConn RecipeID w) = Inr v) \<and>
    (\<exists>v. fst (updateRecipe getConn recipe' w) = Inr v)) \<and>
   (failure getConn \<longrightarrow>
      fst (fetchAllLocations getConn w) = Inr [] \<and>
      fst (fetchAllRecipes getConn w) = Inr [] \<and>
      fst (fetchLikedRecipes getConn w) = Inr [] \<and>
      fst (createRecipe getConn recipe w) = Inr None \<and>
      fst (deleteRecipe getConn recipeID w) = Inr 0 \<and>
      fst (fetchUser getConn UserID w) = Inr [] \<and>
      fst (fetchAllUsers getConn arg w) = Inr [] \<and>
      fst (fetchPantries getConn UserID w) = Inr [] \<and>
      fst (fetchRecipeByID getConn RecipeID w) = Inr [] \<and>
      fst (updateRecipe getConn recipe' w) = Inr 0)"
proof -
  have resolves:
    "(\<exists>v. fst (testOracleConnection getConn w) = Inr v) \<and>
     (\<exists>v. fst (fetchAllLocations getConn w) = Inr v) \<and>
     (\<exists>v. fst (fetchAllRecipes getConn w) = Inr v) \<and>
     (\<exists>v. fst (fetchLikedRecipes getConn w) = Inr v) \<and>
     (\<exists>v. fst (createRecipe getConn recipe w) = Inr v) \<and>
     (\<exists>v. fst (deleteRecipe getConn recipeID w) = Inr v) \<and>
     (\<exists>v. fst (fetchUser getConn UserID w) = Inr v) \<and>
     (\<exists>v. fst (fetchAllUsers getConn arg w) = Inr v) \<and>
     (\<exists>v. fst (fetchPantries getConn UserID w) = Inr v) \<and>
     (\<exists>v. fst (fetchRecipeByID getConn RecipeID w) = Inr v) \<and>
     (\<exists>v. fst (updateRecipe getConn recipe' w) = Inr v)"
    unfolding testOracleConnection_def fetchAllLocations_def fetchAllRecipes_def
      fetchLikedRecipes_def createRecipe_def deleteRecipe_def fetchUser_def fetchAllUsers_def
      fetchPantries_def fetchRecipeByID_def updateRecipe_def
    by (intro conjI catch_resolves)
  have defaults:
    "fst (fetchAllLocations getConn w) = Inr [] \<and>
     fst (fetchAllRecipes getConn w) = Inr [] \<and>
     fst (fetchLikedRecipes getConn w) = Inr [] \<and>
     fst (createRecipe getConn recipe w) = Inr None \<and>
     fst (deleteRecipe getConn recipeID w) = Inr 0 \<and>
     fst (fetchUser getConn UserID w) = Inr [] \<and>
     fst (fetchAllUsers getConn arg w) = Inr [] \<and>
     fst (fetchPantries getConn UserID w) = Inr [] \<and>
     fst (fetchRecipeByID getConn RecipeID w) = Inr [] \<and>
     fst (updateRecipe getConn recipe' w) = Inr 0" if f: "failure getConn"
  proof -
    note q = query_failure [OF f]
    note wf = failure_write_failure [OF f]
    have 1: "fst (fetchAllLocations getConn w) = Inr []"
      using q [of sql_fetchAllLocations w] by (auto simp: fetchAllLocations_def catch_rejected)
    have 2: "fst (fetchAllRecipes getConn w) = Inr []"
      using q [of sql_fetchAllRecipes w] by (auto simp: fetchAllRecipes_def catch_rejected)
    have 3: "fst (fetchLikedRecipes getConn w) = Inr []"
      using q [of sql_fetchLikedRecipes w] by (auto simp: fetchLikedRecipes_def catch_rejected)
    have 4: "fst (createRecipe getConn recipe w) = Inr None"
      by (rule createRecipe_failure [OF wf])
    have 5: "fst (deleteRecipe getConn recipeID w) = Inr 0"
      by (rule deleteRecipe_failure [OF wf])
    have 6: "fst (fetchUser getConn UserID w) = Inr []"
      using q [of "sql_fetchUser UserID" w] by (auto simp: fetchUser_def catch_rejected)
    have 7: "fst (fetchAllUsers getConn arg w) = Inr []"
      using q [of sql_fetchAllUsers w] by (auto simp: fetchAllUsers_def catch_rejected)
    have 8: "fst (fetchPantries getConn UserID w) = Inr []"
      using q [of "sql_fetchPantries UserID" w] by (auto simp: fetchPantries_def catch_rejected)
    have 9: "fst (fetchRecipeByID getConn RecipeID w) = Inr []"
      using q [of "sql_fetchRecipeByID RecipeID" w] by (auto simp: fetchRecipeByID_def catch_rejected)
    have 10: "fst (updateRecipe getConn recipe' w) = Inr 0"
      by (rule updateRecipe_failure [OF wf])
    from 1 2 3 4 5 6 7 8 9 10 show ?thesis by blast
  qed
  from resolves defaults show ?thesis by blast
qed

theorem executors_swallow_errors_witness:
  "failure (Inl (OraError ''NJS-040'')) \<and>
   fst (fetchAllRecipes (Inl (OraError ''NJS-040'')) example_world) = Inr [] \<and>
   fst (createRecipe (Inl (OraError ''NJS-040''))
          \<lparr>recipe_RecipeName = ''Pasta Verde'', recipe_Cuisine = ''Italian'',
            recipe_CookingTime = ''00 00:30:00'', recipe_UserID = 3\<rparr> example_world) = Inr None \<and>
   fst (deleteRecipe (Inl (OraError ''NJS-040'')) 7 example_world) = Inr 0"
proof -
  have f: "failure (Inl (OraError ''NJS-040''))"
    by (simp add: failure_def)
  from executors_swallow_errors
         [where getConn = "Inl (OraError ''NJS-040'')" and w = example_world and recipeID = 7
            and recipe = "\<lparr>recipe_RecipeName = ''Pasta Verde'', recipe_Cuisine = ''Italian'',
                           recipe_CookingTime = ''00 00:30:00'', recipe_UserID = 3\<rparr>"
            and UserID = 1 and arg = "()" and RecipeID = 7
            and recipe' = "\<lparr>recipe_RecipeName = ''Pasta Verde'', recipe_Cuisine = ''Italian'',
                            recipe_CookingTime = ''00 00:30:00'', recipe_UserID = 3,
                            recipe_RecipeID = 7\<rparr>"] f
  show ?thesis by blast
qed

subsection \<open>Deleting twice\<close>

lemma deleteRecipe_deleted:
  assumes "deleteRecipe getConn recipeID w = (Inr n, w1)" and "0 < n"
  shows "filter (\<lambda>r. r_RecipeID r = recipeID) (tbl_RecipeCreated2 (db w1)) = []"
  using assms
  by (auto simp: deleteRecipe_def withOracleDB_def catch_def execute_commit_def sql_deleteRecipe_def
        close_connection_def console_error_def Let_def filter_empty_conv
        split: sum.splits option.splits prod.splits)

lemma deleteRecipe_absent:
  assumes "filter (\<lambda>r. r_RecipeID r = recipeID) (tbl_RecipeCreated2 (db w)) = []"
  shows "fst (deleteRecipe getConn recipeID w) = Inr 0"
  using assms
  by (auto simp: deleteRecipe_def withOracleDB_def catch_def execute_commit_def sql_deleteRecipe_def
        close_connection_def console_error_def Let_def
        split: sum.splits option.splits prod.splits)

lemma deleteRecipe_first_store:
  assumes "deleteRecipe getConn recipeID w = (Inr n, w1)" and "0 < n"
  shows "db w1 = (db w)\<lparr>tbl_RecipeCreated2 :=
                      filter (\<lambda>r. r_RecipeID r \<noteq> recipeID) (tbl_RecipeCreated2 (db w))\<rparr>"
  using assms
  by (auto simp: deleteRecipe_def withOracleDB_def catch_def execute_commit_def sql_deleteRecipe_def
        close_connection_def console_error_def Let_def
        split: sum.splits option.splits prod.splits)

lemma filter_others:
  "filter (\<lambda>r. r_RecipeID r = recipeID) rows = [] \<Longrightarrow>
     filter (\<lambda>r. r_RecipeID r \<noteq> recipeID) rows = rows"
  by (induction rows) (auto split: if_splits)

lemma deleteRecipe_absent_store:
  assumes "filter (\<lambda>r. r_RecipeID r = recipeID) (tbl_RecipeCreated2 (db w)) = []"
  shows "db (snd (deleteRecipe getConn recipeID w)) = db w"
  using assms filter_others [OF assms]
  by (auto simp: deleteRecipe_def withOracleDB_def catch_def execute_commit_def sql_deleteRecipe_def
        close_connection_def console_error_def Let_def
        split: sum.splits option.splits prod.splits)

text \<open>
  Claim C8: when a call of \<^verbatim>\<open>deleteRecipe\<close> has reported a positive row count, it
  has removed exactly the rows with that id and left the rest of the store as it was; a
  second call with the same id on the store it left reports 0 and leaves that store
  unchanged, whatever the driver does on the second call.
\<close>

theorem deleteRecipe_second_call:
  assumes "deleteRecipe getConn1 recipeID w = (Inr n, w1)" and "0 < n"
  shows "db w1 = (db w)\<lparr>tbl_RecipeCreated2 :=
                      filter (\<lambda>r. r_RecipeID r \<noteq> recipeID) (tbl_RecipeCreated2 (db w))\<rparr> \<and>
         fst (deleteRecipe getConn2 recipeID w1) = Inr 0 \<and>
         db (snd (deleteRecipe getConn2 recipeID w1)) = db w1"
proof -
  note gone = deleteRecipe_deleted [OF assms]
  show ?thesis
    using deleteRecipe_first_store [OF assms] deleteRecipe_absent [OF gone, of getConn2]
      deleteRecipe_absent_store [OF gone, of getConn2]
    by simp
qed

theorem deleteRecipe_second_call_witness:
  "deleteRecipe (Inr ok_connection) 7 two_recipes_world = (Inr 1, one_recipe_left) \<and>
   fst (deleteRecipe (Inr ok_connection) 7 one_recipe_left) = Inr 0 \<and>
   db (snd (deleteRecipe (Inr ok_connection) 7 one_recipe_left)) = db one_recipe_left"
proof -
  have first: "deleteRecipe (Inr ok_connection) 7 two_recipes_world = (Inr 1, one_recipe_left)"
    by (simp add: deleteRecipe_def withOracleDB_def catch_def execute_commit_def sql_deleteRecipe_def
          close_connection_def ok_connection_def two_recipes_world_def one_recipe_left_def
          example_world_def example_db_def Let_def)
  from deleteRecipe_second_call [OF first, of "Inr ok_connection"] first show ?thesis by simp
qed

subsection \<open>The columns parameter of the user routes\<close>

text \<open>
  Claim C9 says that for every pair of values of the \<^verbatim>\<open>columns\<close> query parameter
  GET /user/:id and GET /users give the same response. With the key repeated the value is
  an array: GET /user/1?columns=a&columns=b throws a TypeError at \<^verbatim>\<open>.split\<close>,
  before \<^verbatim>\<open>fetchUser\<close> is called, while GET /user/1?columns=a answers 200 with the
  user's row; GET /users behaves alike.
\<close>

theorem columns_array_throws:
  "get_user (Inr ok_connection) (Some (QArray [QString ''a'', QString ''b''])) 1 example_world =
     (Inl (TypeError ''req.query.columns.split is not a function''), example_world) \<and>
   get_user (Inr ok_connection) (Some (QString ''a'')) 1 example_world =
     (Inr \<lparr>status = 200,
           body = Data [[SqlNum 1, SqlStr ''Arthur'', SqlNum 100, SqlStr ''Cook'']]\<rparr>,
      example_world) \<and>
   fst (get_users (Inr ok_connection) (Some (QArray [QString ''a'', QString ''b''])) example_world) =
     Inl (TypeError ''req.query.columns.split is not a function'') \<and>
   fst (get_users (Inr ok_connection) (Some (QString ''a'')) example_world) =
     Inr \<lparr>status = 200,
          body = Data [[SqlNum 1, SqlStr ''Arthur'', SqlNum 100, SqlStr ''Cook''],
                       [SqlNum 3, SqlStr ''Ford Prefect'', SqlNum 250, SqlStr ''Chef'']]\<rparr>"
  by (simp add: get_user_def get_users_def columns_of_def exported call_exported await_def json_def
        fetchUser_def fetchAllUsers_def withOracleDB_def catch_def execute_query_def
        close_connection_def sql_fetchUser_def sql_fetchAllUsers_def max_Points_upto_def
        sql_max_def user_row_def ok_connection_def example_world_def example_db_def Let_def)

text \<open>
  Claim C9 as amended: for every store and every pair of values of the \<^verbatim>\<open>columns\<close>
  query parameter each of which is absent or a single string, GET /user/:id and GET /users
  give the same response and leave the same world: \<^verbatim>\<open>fetchUser\<close> is called with a
  second argument it has no parameter for, and \<^verbatim>\<open>fetchAllUsers\<close> does not depend on
  its argument.
\<close>

theorem columns_ignored:
  assumes "absent_or_string columns1" and "absent_or_string columns2"
  shows "get_user getConn columns1 UserID w = get_user getConn columns2 UserID w \<and>
         get_users getConn columns1 w = get_users getConn columns2 w \<and>
         fetchAllUsers getConn arg1 w = fetchAllUsers getConn arg2 w"
proof -
  obtain c1 c2 where "columns_of columns1 = Inr c1" and "columns_of columns2 = Inr c2"
    using columns_of_string [OF assms(1)] columns_of_string [OF assms(2)] by blast
  then show ?thesis
    by (simp add: get_user_def get_users_def fetchAllUsers_def exported call_exported)
qed

theorem columns_ignored_witness:
  "absent_or_string None \<and> absent_or_string (Some (QString ''UserName,Points'')) \<and>
   get_user (Inr ok_connection) None 1 example_world =
     get_user (Inr ok_connection) (Some (QString ''UserName,Points'')) 1 example_world \<and>
   get_users (Inr ok_connection) None example_world =
     get_users (Inr ok_connection) (Some (QString ''UserName,Points'')) example_world"
proof -
  have a: "absent_or_string None"
    by (simp add: absent_or_string_def)
  have b: "absent_or_string (Some (QString ''UserName,Points''))"
    by (simp add: absent_or_string_def)
  from columns_ignored [OF a b, of "Inr ok_connection" 1 example_world "()" "()"] a b
  show ?thesis by simp
qed

subsection \<open>The two registrations of DELETE /recipe/:id\<close>

text \<open>
  Claim C10: the two handlers registered for DELETE /recipe/:id are equal: each calls
  \<^verbatim>\<open>deleteRecipe\<close> with the id and answers a positive row count with 200 and the
  message "Recipe deleted", any other count with 404 and the error "Recipe not found or
  not deleted". With both registered the router answers as with either one alone.
\<close>

theorem delete_handlers_equal:
  "delete_recipe getConn recipeID w = delete_recipe_second getConn recipeID w \<and>
   delete_recipe getConn recipeID w =
     (case deleteRecipe getConn recipeID w of
        (Inl err, w') \<Rightarrow> (Inl err, w')
      | (Inr rowsAffected, w') \<Rightarrow>
          (Inr (if rowsAffected > 0 then \<lparr>status = 200, body = Message ''Recipe deleted''\<rparr>
                else \<lparr>status = 404, body = Error ''Recipe not found or not deleted''\<rparr>), w')) \<and>
   dispatch [delete_recipe getConn, delete_recipe_second getConn] recipeID w =
     dispatch [delete_recipe getConn] recipeID w \<and>
   dispatch [delete_recipe getConn, delete_recipe_second getConn] recipeID w =
     dispatch [delete_recipe_second getConn] recipeID w"
  by (auto simp: delete_recipe_def delete_recipe_second_def dispatch_def exported call_exported
        await_def json_def split: prod.splits sum.splits)

end
